theory Spec2Isabelle
  imports Complex_Main "HOL-Library.Word" "HOL-Library.Multiset"
begin

section \<open>JavaScript values seen by the data connection\<close>

text \<open>
  The embedding follows \<^verbatim>\<open>DataConnection\<close> (src/unnamed/part_000): \<^verbatim>\<open>send\<close>,
  \<^verbatim>\<open>_startSendLoop\<close>, \<^verbatim>\<open>_handleDataMessage\<close> and the \<^verbatim>\<open>onopen\<close> handler.
  A JavaScript value is \<^verbatim>\<open>undefined\<close>, \<^verbatim>\<open>null\<close> or anything else; the type
  parameter stands for "anything else" (application values, strings, array buffers).
\<close>

datatype 'a jsval = Undefined | Null | Val 'a

type_synonym byte = "8 word"
type_synonym bytes = "byte list"

text \<open>
  \<^verbatim>\<open>Math.ceil(size / chunkSize)\<close> is a JavaScript number: a division by zero gives
  \<^verbatim>\<open>Infinity\<close> (or \<^verbatim>\<open>NaN\<close> for 0/0) instead of failing. Sizes are integers far below
  2^53, where the floating-point quotient rounds up to the exact integer ceiling.
\<close>

datatype jsnum = Fin int | PosInf | NaN

definition js_ceil_div :: "nat \<Rightarrow> int \<Rightarrow> jsnum" where
  "js_ceil_div sz chunkSize =
     (if chunkSize = 0 then (if sz = 0 then NaN else PosInf)
      else Fin (- ((- int sz) div chunkSize)))"

datatype exn = SyntaxError | RangeError | TypeError

text \<open>
  What a call does: it returns, it throws, or it never comes back. In the code modelled
  here every \<^verbatim>\<open>throw\<close> happens before the first mutation of the connection, so a
  thrown exception leaves the state as it was.
\<close>

datatype 'r outcome = Returns 'r | Throws exn | Diverges

section \<open>Data model\<close>

datatype serialization = Binary | BinaryUtf8 | Json | NoSerialization

text \<open>
  \<^verbatim>\<open>dataMeta\<close> as \<^verbatim>\<open>send\<close> builds it before slicing (lines 190-202), and the
  envelope it becomes once \<^verbatim>\<open>index\<close> and \<^verbatim>\<open>data\<close> are set (lines 213-214).
\<close>

record dataMeta =
  dm_id :: string
  dm_type :: string
  dm_size :: int
  dm_totalParts :: int
  dm_name :: "string option"
  dm_mimeType :: "string option"

record envelope =
  meta :: dataMeta
  index :: int
  data :: bytes

text \<open>
  One entry of \<^verbatim>\<open>_receivedData\<close> (lines 133-141). Record fields are global names,
  so the fields that \<^verbatim>\<open>dataMeta\<close> and this object share carry a prefix.
  \<^verbatim>\<open>parts\<close> is a JavaScript array: a slot is a hole (\<open>None\<close>) until something is
  stored in it.
\<close>

record currData =
  cd_size :: int
  cd_type :: string
  cd_name :: "string option"
  cd_mimeType :: "string option"
  cd_totalParts :: int
  parts :: "bytes option list"
  receivedParts :: int

datatype 'a event = Open | Data "'a jsval" | Error string

record 'a dc_state =
  is_open :: bool
  ser :: serialization
  sendBuffer :: "'a jsval list"
  receivedData :: "string \<rightharpoonup> currData"
  sendInterval :: bool

text \<open>
  The collaborators that are not part of the file: \<^verbatim>\<open>util\<close>, \<^verbatim>\<open>object-sizeof\<close>,
  \<^verbatim>\<open>JSON\<close> and the reflective reads on the value being sent. They are parameters of the
  model. \<^verbatim>\<open>util.pack\<close> and \<^verbatim>\<open>util.unpack\<close> are used at two types each (the value
  and the envelope), so each use has its own field:
  \<^item> \<open>maxChunkSize\<close> is \<^verbatim>\<open>util.maxChunkSize\<close>, and \<open>sizeof\<close> is \<^verbatim>\<open>object-sizeof\<close> on
    \<^verbatim>\<open>dataMeta\<close>;
  \<^item> \<open>pack\<close> gives the bytes of the blob \<^verbatim>\<open>util.pack(data)\<close>, whose \<^verbatim>\<open>size\<close> is their
    number; \<open>unpack\<close> is \<^verbatim>\<open>util.unpack\<close> on the joined buffer;
  \<^item> \<open>packMeta\<close> is \<^verbatim>\<open>util.pack(dataMeta)\<close> turned into an array buffer, and
    \<open>unpackMeta\<close> is \<^verbatim>\<open>util.unpack(msg.data)\<close>;
  \<^item> \<open>stringify\<close> and \<open>parse\<close> are \<^verbatim>\<open>JSON.stringify\<close> and \<^verbatim>\<open>JSON.parse\<close>, with
    \<open>None\<close> when they throw;
  \<^item> \<open>constructorName\<close>, \<open>nameOf\<close> and \<open>blobType\<close> are \<^verbatim>\<open>data.constructor.name\<close>,
    \<^verbatim>\<open>data.name\<close> and, for a \<^verbatim>\<open>Blob\<close> only, \<^verbatim>\<open>data.type\<close>.
\<close>

record 'a util =
  maxChunkSize :: int
  sizeof :: "dataMeta \<Rightarrow> int"
  pack :: "'a \<Rightarrow> bytes"
  unpack :: "bytes \<Rightarrow> 'a jsval"
  packMeta :: "envelope \<Rightarrow> 'a jsval"
  unpackMeta :: "'a jsval \<Rightarrow> envelope"
  stringify :: "'a \<Rightarrow> 'a jsval option"
  parse :: "'a jsval \<Rightarrow> 'a jsval option"
  constructorName :: "'a \<Rightarrow> string"
  nameOf :: "'a \<Rightarrow> string option"
  blobType :: "'a \<Rightarrow> string option"

section \<open>The send loop\<close>

definition not_open_message :: string where
  "not_open_message =
     ''Connection is not open. You should listen for the `open` event before sending messages.''"

text \<open>\<^verbatim>\<open>_startSendLoop\<close> (lines 228-247): arm the interval timer unless it is armed.\<close>

definition startSendLoop :: "'a dc_state \<Rightarrow> 'a dc_state" where
  "startSendLoop st = (if \<not> sendInterval st then st\<lparr>sendInterval := True\<rparr> else st)"

text \<open>
  One firing of the interval callback (lines 232-245). \<open>ok\<close> tells whether
  \<^verbatim>\<open>this._dc.send(currMsg)\<close> returns (\<open>True\<close>) or throws (\<open>False\<close>). The result is
  the new state and what reached the channel. \<^verbatim>\<open>shift()\<close> on an empty array gives
  \<^verbatim>\<open>undefined\<close>. A timer that is not armed does not fire.
\<close>

definition sendLoop_tick :: "bool \<Rightarrow> 'a dc_state \<Rightarrow> 'a dc_state \<times> 'a jsval list" where
  "sendLoop_tick ok st =
     (if \<not> sendInterval st then (st, [])
      else
        let currMsg = (case sendBuffer st of [] \<Rightarrow> Undefined | m # _ \<Rightarrow> m);
            shifted = (case sendBuffer st of [] \<Rightarrow> [] | _ # rest \<Rightarrow> rest);
            buf = (if ok then shifted else shifted @ [currMsg]);
            sent = (if ok then [currMsg] else [])
        in (st\<lparr>sendBuffer := buf, sendInterval := (buf \<noteq> [])\<rparr>, sent))"

text \<open>The timer firing once per element of \<open>oks\<close>; the channel sees the concatenation.\<close>

fun run_ticks :: "bool list \<Rightarrow> 'a dc_state \<Rightarrow> 'a dc_state \<times> 'a jsval list" where
  "run_ticks [] st = (st, [])"
| "run_ticks (ok # oks) st =
     (let (st1, sent1) = sendLoop_tick ok st;
          (st2, sent2) = run_ticks oks st1
      in (st2, sent1 @ sent2))"

section \<open>Sending\<close>

text \<open>
  \<^verbatim>\<open>Blob.slice(start, end)\<close>: a negative bound counts from the end, both bounds are
  clamped to the blob, and an empty or inverted range gives an empty blob.
\<close>

definition blob_slice :: "bytes \<Rightarrow> int \<Rightarrow> int \<Rightarrow> bytes" where
  "blob_slice b start end =
     (let sz = int (length b);
          relStart = (if start < 0 then max (sz + start) 0 else min start sz);
          relEnd = (if end < 0 then max (sz + end) 0 else min end sz);
          span = max (relEnd - relStart) 0
      in take (nat span) (drop (nat relStart) b))"

text \<open>
  The slicing loop (lines 211-221) for a finite bound. Each round packs the envelope at
  once, so the envelope of round \<open>i\<close> carries the index and the slice of round \<open>i\<close>
  although \<^verbatim>\<open>dataMeta\<close> is one object that the loop keeps overwriting.
\<close>

function slice_loop :: "bytes \<Rightarrow> int \<Rightarrow> dataMeta \<Rightarrow> int \<Rightarrow> int \<Rightarrow> envelope list" where
  "slice_loop packedData chunkSize dm numSlices sliceIndex =
     (if sliceIndex < numSlices
      then \<lparr>meta = dm, index = sliceIndex,
             data = blob_slice packedData (sliceIndex * chunkSize) ((sliceIndex + 1) * chunkSize)\<rparr>
           # slice_loop packedData chunkSize dm numSlices (sliceIndex + 1)
      else [])"
  by pat_completeness auto
termination
  by (relation "measure (\<lambda>(p, c, dm, n, i). nat (n - i))") auto

declare slice_loop.simps [simp del]

text \<open>
  Lines 186-221 up to the list of envelopes: the metadata, the chunk size, the number of
  slices and the loop. With \<^verbatim>\<open>numSlices = Infinity\<close> the loop condition never fails
  and the call does not return (\<open>None\<close>); with \<^verbatim>\<open>NaN\<close> it fails at once.
\<close>

definition make_dataMeta :: "'a util \<Rightarrow> string \<Rightarrow> 'a \<Rightarrow> dataMeta" where
  "make_dataMeta u rid x =
     \<lparr>dm_id = rid, dm_type = constructorName u x, dm_size = int (length (pack u x)),
      dm_totalParts = 0,
      dm_name = (if constructorName u x = ''file'' then nameOf u x else None),
      dm_mimeType = blobType u x\<rparr>"

definition chunks :: "'a util \<Rightarrow> string \<Rightarrow> 'a \<Rightarrow> envelope list option" where
  "chunks u rid x =
     (let packedData = pack u x;
          dm = make_dataMeta u rid x;
          chunkSize = maxChunkSize u - sizeof u dm
      in case js_ceil_div (length packedData) chunkSize of
           NaN \<Rightarrow> Some []
         | PosInf \<Rightarrow> None
         | Fin numSlices \<Rightarrow>
             Some (slice_loop packedData chunkSize (dm\<lparr>dm_totalParts := numSlices\<rparr>) numSlices 0))"

text \<open>
  The callback of \<^verbatim>\<open>util.blobToArrayBuffer\<close> (lines 217-220), taken in the order in which
  the loop issued the conversions.
\<close>

definition enqueue :: "'a jsval \<Rightarrow> 'a dc_state \<Rightarrow> 'a dc_state" where
  "enqueue m st = startSendLoop (st\<lparr>sendBuffer := sendBuffer st @ [m]\<rparr>)"

text \<open>
  \<^verbatim>\<open>send(data)\<close> (lines 161-222). \<open>rid\<close> is the value \<^verbatim>\<open>util.randomId()\<close> draws in this
  call. \<^verbatim>\<open>JSON.stringify\<close> may throw (\<open>None\<close>).
\<close>

definition send :: "'a util \<Rightarrow> string \<Rightarrow> 'a dc_state \<Rightarrow> 'a jsval \<Rightarrow> ('a dc_state \<times> 'a event list) outcome" where
  "send u rid st d =
     (if \<not> is_open st then Returns (st, [Error not_open_message])
      else case d of
        Undefined \<Rightarrow> Returns (st, [])
      | Null \<Rightarrow> Returns (st, [])
      | Val x \<Rightarrow>
          (case ser st of
             NoSerialization \<Rightarrow> Returns (enqueue d st, [])
           | Json \<Rightarrow>
               (case stringify u x of
                  None \<Rightarrow> Throws TypeError
                | Some s \<Rightarrow> Returns (enqueue s st, []))
           | _ \<Rightarrow>
               (case chunks u rid x of
                  None \<Rightarrow> Diverges
                | Some es \<Rightarrow> Returns (fold (\<lambda>e. enqueue (packMeta u e)) es st, []))))"

section \<open>Receiving\<close>

text \<open>The \<^verbatim>\<open>onopen\<close> handler of the channel (lines 94-98).\<close>

definition dc_onopen :: "'a dc_state \<Rightarrow> 'a dc_state \<times> 'a event list" where
  "dc_onopen st = (st\<lparr>is_open := True\<rparr>, [Open])"

text \<open>
  \<^verbatim>\<open>new Array(n)\<close> throws a \<^verbatim>\<open>RangeError\<close> unless \<open>n\<close> is an unsigned 32-bit integer.
\<close>

definition new_Array :: "int \<Rightarrow> exn + bytes option list" where
  "new_Array n = (if n < 0 \<or> 2 ^ 32 \<le> n then Inl RangeError else Inr (replicate (nat n) None))"

text \<open>
  \<^verbatim>\<open>parts[i] = v\<close>. An index inside the array fills the slot; an index past the end
  extends the array with holes; a key that is not an array index (negative, or above
  2^32 - 2) becomes a named property of the object and no element changes.
\<close>

definition array_set :: "bytes option list \<Rightarrow> int \<Rightarrow> bytes \<Rightarrow> bytes option list" where
  "array_set a i v =
     (if i < 0 \<or> 2 ^ 32 - 1 \<le> i then a
      else if nat i < length a then a[nat i := Some v]
      else a @ replicate (nat i - length a) None @ [Some v])"

text \<open>
  Modelled from the spec: \<^verbatim>\<open>util.joinArrayBuffers\<close> is not in the sources. Section 4.4:
  "concatenate parts in index order into one contiguous byte sequence". The spec does
  not say what a hole contributes; here it contributes no bytes.
\<close>

definition joinArrayBuffers :: "bytes option list \<Rightarrow> bytes" where
  "joinArrayBuffers ps = concat (map (\<lambda>p. case p of None \<Rightarrow> [] | Some b \<Rightarrow> b) ps)"

text \<open>
  \<^verbatim>\<open>_receivedData\<close> is a plain object (\<^verbatim>\<open>{}\<close>, line 61), so the read
  \<^verbatim>\<open>this._receivedData[dataMeta.id]\<close> of line 131 finds, besides the entries the handler
  stored itself, the members every plain object inherits from \<^verbatim>\<open>Object.prototype\<close>.
  The map of the state holds the stored entries; the inherited names are listed here.
  An inherited member is a function, or for \<^verbatim>\<open>__proto__\<close> the prototype object: a
  truthy value without a \<^verbatim>\<open>parts\<close> property.
\<close>

definition Object_prototype_members :: "string list" where
  "Object_prototype_members =
     [''constructor'', ''hasOwnProperty'', ''isPrototypeOf'', ''propertyIsEnumerable'',
      ''toLocaleString'', ''toString'', ''valueOf'', ''__proto__'',
      ''__defineGetter__'', ''__defineSetter__'', ''__lookupGetter__'', ''__lookupSetter__'']"

datatype table_read = Own currData | Inherited | Missing

definition receivedData_get :: "(string \<rightharpoonup> currData) \<Rightarrow> string \<Rightarrow> table_read" where
  "receivedData_get tbl k =
     (case tbl k of
        Some cd \<Rightarrow> Own cd
      | None \<Rightarrow> if k \<in> set Object_prototype_members then Inherited else Missing)"

text \<open>
  Lines 131-144 up to the object whose \<^verbatim>\<open>parts\<close> line 144 writes: the live entry for
  this id, or a fresh one. When the id names an inherited member, the test of line 132
  finds a truthy value and skips the initialisation, line 143 puts its count on that
  member (not on the connection), and line 144 throws a \<^verbatim>\<open>TypeError\<close>, since the member
  has no \<^verbatim>\<open>parts\<close>.
\<close>

definition lookup_or_init :: "(string \<rightharpoonup> currData) \<Rightarrow> envelope \<Rightarrow> exn + currData" where
  "lookup_or_init tbl e =
     (case receivedData_get tbl (dm_id (meta e)) of
        Own cd \<Rightarrow> Inr cd
      | Inherited \<Rightarrow> Inl TypeError
      | Missing \<Rightarrow>
          (case new_Array (dm_totalParts (meta e)) of
             Inl x \<Rightarrow> Inl x
           | Inr arr \<Rightarrow>
               Inr \<lparr>cd_size = dm_size (meta e), cd_type = dm_type (meta e),
                    cd_name = dm_name (meta e), cd_mimeType = dm_mimeType (meta e),
                    cd_totalParts = dm_totalParts (meta e),
                    parts = arr, receivedParts = 0\<rparr>))"

text \<open>Lines 127-154, on the unpacked envelope.\<close>

definition handleChunk :: "'a util \<Rightarrow> 'a dc_state \<Rightarrow> envelope \<Rightarrow> ('a dc_state \<times> 'a event list) outcome" where
  "handleChunk u st e =
     (case lookup_or_init (receivedData st) e of
        Inl x \<Rightarrow> Throws x
      | Inr cd0 \<Rightarrow>
          (let cd = cd0\<lparr>receivedParts := receivedParts cd0 + 1,
                         parts := array_set (parts cd0) (index e) (data e)\<rparr>
           in if receivedParts cd = cd_totalParts cd
              then Returns (st\<lparr>receivedData := (receivedData st)(dm_id (meta e) := None)\<rparr>,
                            [Data (unpack u (joinArrayBuffers (parts cd)))])
              else Returns (st\<lparr>receivedData := (receivedData st)(dm_id (meta e) \<mapsto> cd)\<rparr>, [])))"

text \<open>
  \<^verbatim>\<open>_handleDataMessage(msg)\<close> (lines 116-155); \<open>msg\<close> stands for \<^verbatim>\<open>msg.data\<close>. The two
  early branches name the event by the enumeration item and the last one by its key; all
  three are the \<^verbatim>\<open>data\<close> event here. \<^verbatim>\<open>JSON.parse\<close> throws on text that is not JSON
  (\<open>None\<close>), and nothing catches it.
\<close>

definition handleDataMessage :: "'a util \<Rightarrow> 'a dc_state \<Rightarrow> 'a jsval \<Rightarrow> ('a dc_state \<times> 'a event list) outcome" where
  "handleDataMessage u st msg =
     (case ser st of
        NoSerialization \<Rightarrow> Returns (st, [Data msg])
      | Json \<Rightarrow>
          (case parse u msg of
             None \<Rightarrow> Throws SyntaxError
           | Some v \<Rightarrow> Returns (st, [Data v]))
      | _ \<Rightarrow> handleChunk u st (unpackMeta u msg))"

text \<open>The connection as a call leaves it; a call that throws or hangs changed nothing.\<close>

definition state_after :: "'a dc_state \<Rightarrow> ('a dc_state \<times> 'e list) outcome \<Rightarrow> 'a dc_state" where
  "state_after st r = (case r of Returns (st1, _) \<Rightarrow> st1 | _ \<Rightarrow> st)"

text \<open>
  The channel delivering a sequence of messages, one \<^verbatim>\<open>onmessage\<close> callback each. An
  exception ends its own callback only; the later messages are still handled. The log
  records what each callback emitted or threw.
\<close>

datatype 'a obs = Emitted "'a event" | Uncaught exn

definition is_Error :: "'a event \<Rightarrow> bool" where
  "is_Error ev = (case ev of Error _ \<Rightarrow> True | _ \<Rightarrow> False)"

fun deliver :: "'a util \<Rightarrow> 'a dc_state \<Rightarrow> 'a jsval list \<Rightarrow> 'a dc_state \<times> 'a obs list" where
  "deliver u st [] = (st, [])"
| "deliver u st (m # ms) =
     (case handleDataMessage u st m of
        Returns (st1, evs) \<Rightarrow>
          (let (st2, log) = deliver u st1 ms in (st2, map Emitted evs @ log))
      | Throws x \<Rightarrow> (let (st2, log) = deliver u st ms in (st2, Uncaught x # log))
      | Diverges \<Rightarrow> (st, []))"

section \<open>Construction\<close>

text \<open>
  The transfer state the constructor leaves (lines 59-63): an empty send buffer, an empty
  reassembly table and no timer, for the serialization the connection was given. The
  \<^verbatim>\<open>open\<close> flag belongs to the superclass, which is not in the sources; the only
  assignment here is the one in \<^verbatim>\<open>onopen\<close>, so a connection whose channel has not
  opened is not open.
\<close>

definition fresh :: "serialization \<Rightarrow> 'a dc_state" where
  "fresh s = \<lparr>is_open = False, ser = s, sendBuffer = [], receivedData = Map.empty,
              sendInterval = False\<rparr>"

section \<open>Progress of one reassembly\<close>




section \<open>A concrete connection for the examples\<close>

text \<open>
  The examples run the model on a small universe of values: strings, array buffers and
  packed envelopes. The codec packs a buffer as its own bytes and an envelope as itself;
  the channel bound is 1000 bytes and the metadata weighs 50. The JSON reader knows the
  text \<^verbatim>\<open>null\<close> and plain quoted strings; the examples give it nothing else but text
  that is no JSON at all.
\<close>

datatype sample = Str string | Buf bytes | Packed envelope

definition sample_parse :: "sample jsval \<Rightarrow> sample jsval option" where
  "sample_parse m =
     (case m of
        Val (Str s) \<Rightarrow>
          (if s = ''null'' then Some Null
           else if 2 \<le> length s \<and> hd s = CHR 0x22 \<and> last s = CHR 0x22
                   \<and> CHR 0x22 \<notin> set (butlast (tl s)) \<and> CHR 0x5C \<notin> set s
                then Some (Val (Str (butlast (tl s))))
                else None)
      | _ \<Rightarrow> None)"

definition sample_util :: "sample util" where
  "sample_util =
     \<lparr>maxChunkSize = 1000,
      sizeof = (\<lambda>_. 50),
      pack = (\<lambda>x. case x of Buf b \<Rightarrow> b | Str s \<Rightarrow> map (\<lambda>c. of_nat (of_char c)) s
                         | Packed e \<Rightarrow> data e),
      unpack = (\<lambda>b. Val (Buf b)),
      packMeta = (\<lambda>e. Val (Packed e)),
      unpackMeta = (\<lambda>m. case m of Val (Packed e) \<Rightarrow> e
                         | _ \<Rightarrow> \<lparr>meta = \<lparr>dm_id = [], dm_type = [], dm_size = 0, dm_totalParts = 0,
                                              dm_name = None, dm_mimeType = None\<rparr>,
                                    index = 0, data = []\<rparr>),
      stringify = (\<lambda>x. case x of Str s \<Rightarrow> Some (Val (Str (CHR 0x22 # s @ [CHR 0x22])))
                              | _ \<Rightarrow> Some (Val (Str ''{}''))),
      parse = sample_parse,
      constructorName = (\<lambda>x. case x of Str _ \<Rightarrow> ''String'' | Buf _ \<Rightarrow> ''ArrayBuffer''
                                    | Packed _ \<Rightarrow> ''Object''),
      nameOf = (\<lambda>_. None),
      blobType = (\<lambda>_. None)\<rparr>"

definition opened :: "serialization \<Rightarrow> sample dc_state" where
  "opened s = fst (dc_onopen (fresh s))"

text \<open>An open connection without serialization after \<^verbatim>\<open>send("a")\<close> and \<^verbatim>\<open>send("b")\<close>.\<close>

definition two_queued :: "sample dc_state" where
  "two_queued =
     (let st0 = opened NoSerialization;
          st1 = state_after st0 (send sample_util ''r1'' st0 (Val (Str ''a'')))
      in state_after st1 (send sample_util ''r2'' st1 (Val (Str ''b''))))"

text \<open>A buffer of 2200 bytes: with 950 usable bytes per chunk it needs three chunks.\<close>

definition payload2200 :: sample where
  "payload2200 = Buf (replicate 2200 7)"

text \<open>
  Chunk \<open>i\<close> of the transfer \<open>t1\<close>, announced as \<open>n\<close> parts; its slice is the single
  byte \<open>i + 1\<close>. \<open>inherited_chunk\<close> is the same chunk of a transfer whose id is
  \<^verbatim>\<open>toString\<close>.
\<close>

definition sample_chunk :: "int \<Rightarrow> int \<Rightarrow> envelope" where
  "sample_chunk n i =
     \<lparr>meta = \<lparr>dm_id = ''t1'', dm_type = ''ArrayBuffer'', dm_size = n, dm_totalParts = n,
              dm_name = None, dm_mimeType = None\<rparr>,
      index = i, data = [of_int i + 1]\<rparr>"


section \<open>Sending on a connection that is not open, and sending nothing\<close>

text \<open>
  C7. \<^verbatim>\<open>send\<close> on a connection that is not open returns normally (it neither throws nor
  hangs), emits exactly one \<^verbatim>\<open>error\<close> event whose message says the connection is not
  open, and leaves the whole state, the send buffer included, as it was.
\<close>

theorem send_not_open:
  "\<not> is_open st \<Longrightarrow> send u rid st d = Returns (st, [Error not_open_message])"
  by (simp add: send_def)

text \<open>
  C10. On an open connection, in every serialization mode, \<^verbatim>\<open>send(undefined)\<close> and
  \<^verbatim>\<open>send(null)\<close> return with the state unchanged and no event emitted; since the state
  is unchanged, nothing was enqueued and no timer was armed.
\<close>

theorem send_nullish_dropped:
  "is_open st \<Longrightarrow> d = Undefined \<or> d = Null \<Longrightarrow> send u rid st d = Returns (st, [])"
  by (auto simp: send_def)

theorem send_not_open_witness:
  "\<not> is_open (fresh Json :: sample dc_state)
   \<and> send sample_util ''id1'' (fresh Json) (Val (Str ''hello''))
       = Returns (fresh Json, [Error not_open_message])
   \<and> sendBuffer (fresh Json :: sample dc_state) = []"
  using send_not_open [of "fresh Json" sample_util "''id1''" "Val (Str ''hello'')"]
  by (simp add: fresh_def)

theorem send_nullish_dropped_witness:
  "is_open (opened Binary) \<and> send sample_util ''id1'' (opened Binary) Null = Returns (opened Binary, [])"
  using send_nullish_dropped [of "opened Binary" Null sample_util "''id1''"]
  by (simp add: opened_def dc_onopen_def)

section \<open>The send loop under a failed hand-off\<close>

lemma tick_failure_requeues:
  "sendInterval st \<Longrightarrow> sendBuffer st = m # rest \<Longrightarrow>
   sendLoop_tick False st = (st\<lparr>sendBuffer := rest @ [m], sendInterval := True\<rparr>, [])"
  by (simp add: sendLoop_tick_def)

lemma tick_success_emits_head:
  "sendInterval st \<Longrightarrow> sendBuffer st = m # rest \<Longrightarrow>
   sendLoop_tick True st = (st\<lparr>sendBuffer := rest, sendInterval := (rest \<noteq> [])\<rparr>, [m])"
  by (simp add: sendLoop_tick_def)

text \<open>
  While every hand-off succeeds the loop emits the head of the buffer, one entry per
  period. When the hand-off of one entry fails once, that entry is emitted after all the
  entries that were queued behind it.
\<close>

lemma drain_prefix:
  assumes "sendInterval st" and "sendBuffer st = xs @ rest"
  shows "run_ticks (replicate (length xs) True @ oks) st
           = (fst (run_ticks oks (st\<lparr>sendBuffer := rest, sendInterval := (xs = [] \<or> rest \<noteq> [])\<rparr>)),
              xs @ snd (run_ticks oks (st\<lparr>sendBuffer := rest, sendInterval := (xs = [] \<or> rest \<noteq> [])\<rparr>)))"
  using assms
proof (induction xs arbitrary: st)
  case Nil
  then have "st\<lparr>sendBuffer := rest, sendInterval := True\<rparr> = st" by simp
  then show ?case by simp
next
  case (Cons x xs)
  let ?st1 = "st\<lparr>sendBuffer := xs @ rest, sendInterval := (xs @ rest \<noteq> [])\<rparr>"
  have tick: "sendLoop_tick True st = (?st1, [x])"
    using Cons.prems by (simp add: sendLoop_tick_def)
  show ?case
  proof (cases "xs = []")
    case True
    with tick show ?thesis
      by (simp add: split_beta)
  next
    case False
    then have "sendInterval ?st1" "sendBuffer ?st1 = xs @ rest" by simp_all
    from Cons.IH [OF this] False tick show ?thesis
      by (simp add: split_beta)
  qed
qed

lemma retry_moves_entry_to_tail:
  assumes "sendInterval st" and "sendBuffer st = xs @ x # ys"
  shows "snd (run_ticks (replicate (length xs) True @ False # replicate (Suc (length ys)) True) st)
           = xs @ ys @ [x]"
proof -
  let ?st1 = "st\<lparr>sendBuffer := x # ys, sendInterval := True\<rparr>"
  let ?st2 = "st\<lparr>sendBuffer := ys @ [x], sendInterval := True\<rparr>"
  have fail: "sendLoop_tick False ?st1 = (?st2, [])"
    by (simp add: sendLoop_tick_def)
  have rest: "snd (run_ticks (replicate (Suc (length ys)) True) ?st2) = ys @ [x]"
    using drain_prefix [of ?st2 "ys @ [x]" "[]" "[]"] by simp
  have "snd (run_ticks (False # replicate (Suc (length ys)) True) ?st1) = ys @ [x]"
    using fail rest by (simp add: split_beta del: replicate_Suc)
  then show ?thesis
    using drain_prefix [OF assms, of "False # replicate (Suc (length ys)) True"]
    by (simp del: replicate_Suc run_ticks.simps)
qed

text \<open>
  C1. The claim asks that a hand-off which fails once does not disturb the order of
  emission. The code keeps the failed entry (\<open>tick_failure_requeues\<close>) but puts it
  back at the tail (\<open>retry_moves_entry_to_tail\<close>): with \<open>a\<close>, \<open>b\<close> enqueued in this
  order, the channel sees \<open>a\<close>, \<open>b\<close> when no hand-off fails, and \<open>b\<close>, \<open>a\<close> when the
  first hand-off fails once.
\<close>

theorem sendLoop_retry_reorders:
  "sendBuffer two_queued = [Val (Str ''a''), Val (Str ''b'')]
   \<and> snd (run_ticks [True, True] two_queued) = [Val (Str ''a''), Val (Str ''b'')]
   \<and> snd (run_ticks [False, True, True] two_queued) = [Val (Str ''b''), Val (Str ''a'')]"
  by (simp add: two_queued_def send_def state_after_def enqueue_def startSendLoop_def opened_def
      dc_onopen_def fresh_def sendLoop_tick_def)

section \<open>Duplicate chunks\<close>

text \<open>
  C2. The claim asks that a chunk index delivered twice counts once. The code counts
  every delivery: a two-part transfer whose chunk 0 arrives twice is taken for complete
  and removed from the table although chunk 1 never arrived, and its array, with a hole
  at index 1, is handed to the join (the event shown is what the join modelled from the
  spec makes of it); in a three-part transfer the same duplicate leaves
  \<^verbatim>\<open>receivedParts\<close> at 2 with one index received.
\<close>

theorem duplicate_chunk_counted_twice:
  "deliver sample_util (opened Binary)
       [Val (Packed (sample_chunk 2 0)), Val (Packed (sample_chunk 2 0))]
     = (opened Binary, [Emitted (Data (Val (Buf [1])))])
   \<and> map_option receivedParts
        (receivedData (fst (deliver sample_util (opened Binary)
           [Val (Packed (sample_chunk 3 0)), Val (Packed (sample_chunk 3 0))])) ''t1'') = Some 2"
  by (simp add: handleDataMessage_def handleChunk_def lookup_or_init_def receivedData_get_def
      Object_prototype_members_def new_Array_def array_set_def joinArrayBuffers_def
      sample_util_def sample_chunk_def opened_def dc_onopen_def fresh_def eval_nat_numeral)

section \<open>Values sent before the channel is open\<close>

text \<open>
  C8, as stated, fails: a value sent while the connection is pending is not kept. After
  \<^verbatim>\<open>send("hello")\<close> on a fresh connection, the channel opening and three timer periods,
  nothing has reached the channel.
\<close>

theorem pending_send_counterexample:
  "snd (run_ticks [True, True, True]
         (fst (dc_onopen (state_after (fresh NoSerialization)
            (send sample_util ''id1'' (fresh NoSerialization) (Val (Str ''hello''))))))) = []"
  by (simp add: send_def fresh_def state_after_def dc_onopen_def sendLoop_tick_def)

text \<open>
  C8, amended. A value sent while the connection is not open is not buffered: the send
  buffer after the call is the send buffer before it, and once the channel opens the
  send loop transmits exactly what it would have transmitted had the call never been
  made.
\<close>

theorem pending_send_dropped:
  "\<not> is_open st \<Longrightarrow>
     sendBuffer (state_after st (send u rid st v)) = sendBuffer st
     \<and> run_ticks oks (fst (dc_onopen (state_after st (send u rid st v))))
         = run_ticks oks (fst (dc_onopen st))"
  by (simp add: send_def state_after_def)

theorem pending_send_dropped_witness:
  "\<not> is_open (fresh Binary :: sample dc_state)
   \<and> sendBuffer (state_after (fresh Binary)
        (send sample_util ''id1'' (fresh Binary) (Val (Buf [1, 2, 3])))) = []
   \<and> run_ticks [True] (fst (dc_onopen (state_after (fresh Binary)
        (send sample_util ''id1'' (fresh Binary) (Val (Buf [1, 2, 3]))))))
       = (opened Binary, [])"
  using pending_send_dropped [of "fresh Binary" sample_util "''id1''" "Val (Buf [1, 2, 3])" "[True]"]
  by (simp add: fresh_def opened_def dc_onopen_def sendLoop_tick_def)

section \<open>Malformed JSON\<close>

text \<open>
  C9, as stated, fails: in json mode the handler does not catch the failure of
  \<^verbatim>\<open>JSON.parse\<close>. On the text \<^verbatim>\<open>{bad\<close> the call throws a \<^verbatim>\<open>SyntaxError\<close> at its caller
  and emits nothing, so no \<^verbatim>\<open>error\<close> event reports the failure.
\<close>

theorem json_parse_failure_counterexample:
  "handleDataMessage sample_util (opened Json) (Val (Str ''{bad'')) = Throws SyntaxError"
  by (simp add: handleDataMessage_def opened_def dc_onopen_def fresh_def sample_util_def
      sample_parse_def)

text \<open>
  C9, amended. In json mode a message that \<^verbatim>\<open>JSON.parse\<close> rejects makes the handler
  throw the \<^verbatim>\<open>SyntaxError\<close> synchronously; it emits neither a \<^verbatim>\<open>data\<close> nor an
  \<^verbatim>\<open>error\<close> event and leaves the connection as it was, so the messages that follow are
  handled as if the malformed one had not arrived.
\<close>

theorem json_parse_failure_thrown:
  "ser st = Json \<Longrightarrow> parse u msg = None \<Longrightarrow>
     handleDataMessage u st msg = Throws SyntaxError
     \<and> deliver u st (msg # ms)
         = (fst (deliver u st ms), Uncaught SyntaxError # snd (deliver u st ms))"
  by (simp add: handleDataMessage_def split: prod.splits)

theorem json_parse_failure_thrown_witness:
  "ser (opened Json) = Json \<and> parse sample_util (Val (Str ''{bad'')) = None
   \<and> handleDataMessage sample_util (opened Json) (Val (Str ''{bad'')) = Throws SyntaxError
   \<and> deliver sample_util (opened Json) [Val (Str ''{bad''), Val (Str ''null'')]
       = (opened Json, [Uncaught SyntaxError, Emitted (Data Null)])"
  using json_parse_failure_thrown
    [of "opened Json" sample_util "Val (Str ''{bad'')" "[Val (Str ''null'')]"]
  by (simp add: handleDataMessage_def opened_def dc_onopen_def fresh_def sample_util_def
      sample_parse_def)

section \<open>The chunker\<close>

lemma slice_loop_upto:
  "slice_loop p c dm n i =
     map (\<lambda>j. \<lparr>meta = dm, index = j, data = blob_slice p (j * c) ((j + 1) * c)\<rparr>) [i..n - 1]"
proof (induction p c dm n i rule: slice_loop.induct)
  case (1 p c dm n i)
  show ?case
  proof (cases "i < n")
    case True
    then have "[i..n - 1] = i # [i + 1..n - 1]"
      by (simp add: upto_rec1)
    with True 1 show ?thesis
      by (subst slice_loop.simps) simp
  next
    case False
    then show ?thesis
      by (subst slice_loop.simps) simp
  qed
qed

lemma blob_slice_nonneg:
  "0 \<le> lo \<Longrightarrow> lo \<le> hi \<Longrightarrow>
   blob_slice b lo hi = take (nat hi - nat lo) (drop (nat lo) b)"
  by (auto simp: blob_slice_def Let_def min_def max_def nat_diff_distrib)

lemma ceil_div_bounds:
  fixes S C :: int
  assumes "0 < C" "0 \<le> S"
  shows "0 \<le> - ((- S) div C)" and "(- ((- S) div C)) * C < S + C" and "S \<le> (- ((- S) div C)) * C"
proof -
  define q where "q = (- S) div C"
  define r where "r = (- S) mod C"
  have a: "- S = C * q + r" unfolding q_def r_def by simp
  have b: "0 \<le> r" "r < C" using assms unfolding r_def by simp_all
  have c: "(- q) * C = S + r" using a by (simp add: algebra_simps)
  show "(- ((- S) div C)) * C < S + C" using c b unfolding q_def by linarith
  show "S \<le> (- ((- S) div C)) * C" using c b unfolding q_def by linarith
  have "q \<le> 0"
  proof (rule ccontr)
    assume "\<not> q \<le> 0"
    then have "1 \<le> q" by simp
    then have "C * 1 \<le> C * q" using assms(1) by (intro mult_left_mono) simp_all
    with a b assms show False by simp
  qed
  then show "0 \<le> - ((- S) div C)" unfolding q_def by simp
qed

lemma chunks_positive:
  assumes "0 < maxChunkSize u - sizeof u (make_dataMeta u rid x)"
  shows "chunks u rid x =
     Some (map (\<lambda>j. \<lparr>meta = (make_dataMeta u rid x)
                              \<lparr>dm_totalParts := \<lceil>real (length (pack u x))
                                   / real_of_int (maxChunkSize u - sizeof u (make_dataMeta u rid x))\<rceil>\<rparr>,
                      index = j,
                      data = blob_slice (pack u x)
                               (j * (maxChunkSize u - sizeof u (make_dataMeta u rid x)))
                               ((j + 1) * (maxChunkSize u - sizeof u (make_dataMeta u rid x)))\<rparr>)
             [0..\<lceil>real (length (pack u x))
                   / real_of_int (maxChunkSize u - sizeof u (make_dataMeta u rid x))\<rceil> - 1])"
proof -
  let ?C = "maxChunkSize u - sizeof u (make_dataMeta u rid x)"
  let ?S = "length (pack u x)"
  have "\<lceil>real ?S / real_of_int ?C\<rceil> = - ((- int ?S) div ?C)"
    using ceiling_divide_eq_div [of "int ?S" ?C] by simp
  with assms show ?thesis
    by (simp add: chunks_def js_ceil_div_def Let_def slice_loop_upto)
qed

lemma take_min_length: "take (min k (length l)) l = take k l"
  by (simp add: min_def)

text \<open>
  The list of envelopes that lines 186-214 build, for a positive effective capacity.
\<close>

lemma chunks_slices:
  assumes C: "C = maxChunkSize u - sizeof u (make_dataMeta u rid x)"
    and S: "S = length (pack u x)"
    and pos: "0 < C"
  shows "\<exists>es. chunks u rid x = Some es
     \<and> int (length es) = \<lceil>real S / real_of_int C\<rceil>
     \<and> (\<forall>i < length es.
          meta (es ! i) = (make_dataMeta u rid x)\<lparr>dm_totalParts := int (length es)\<rparr>
          \<and> index (es ! i) = int i
          \<and> data (es ! i) = take (min S ((i + 1) * nat C) - i * nat C) (drop (i * nat C) (pack u x)))
     \<and> (0 < S \<longrightarrow> es \<noteq> [] \<and> int (length (data (last es))) = int S - C * (int (length es) - 1))"
proof -
  define n where "n = \<lceil>real S / real_of_int C\<rceil>"
  define mk where "mk = (\<lambda>j. \<lparr>meta = (make_dataMeta u rid x)\<lparr>dm_totalParts := n\<rparr>, index = j,
                             data = blob_slice (pack u x) (j * C) ((j + 1) * C)\<rparr>)"
  define es where "es = map mk [0..n - 1]"
  have n_div: "n = - ((- int S) div C)"
    unfolding n_def using ceiling_divide_eq_div [of "int S" C] by simp
  have n0: "0 \<le> n" and n_up: "n * C < int S + C" and n_lo: "int S \<le> n * C"
    using ceil_div_bounds [of C "int S"] pos unfolding n_div by simp_all
  have chunks: "chunks u rid x = Some es"
    using chunks_positive [of u rid x] pos unfolding es_def mk_def n_def C S by simp
  have len: "int (length es) = n"
    using n0 by (simp add: es_def)
  have nth: "es ! i = mk (int i)" if "i < length es" for i
    using that len by (simp add: es_def)
  have slice: "data (mk (int i)) = take (min S ((i + 1) * nat C) - i * nat C) (drop (i * nat C) (pack u x))"
    for i
  proof -
    have lo: "nat (int i * C) = i * nat C"
      using pos by (simp add: nat_mult_distrib)
    have hi: "nat ((int i + 1) * C) = (i + 1) * nat C"
      using pos by (simp add: nat_mult_distrib nat_add_distrib)
    have le: "int i * C \<le> (int i + 1) * C"
      using pos by (simp add: algebra_simps)
    have "data (mk (int i)) = take ((i + 1) * nat C - i * nat C) (drop (i * nat C) (pack u x))"
      using pos le by (simp add: mk_def blob_slice_nonneg lo hi del: of_nat_add of_nat_Suc)
    also have "\<dots> = take (min ((i + 1) * nat C - i * nat C) (length (drop (i * nat C) (pack u x))))
                       (drop (i * nat C) (pack u x))"
      by (simp only: take_min_length)
    also have "min ((i + 1) * nat C - i * nat C) (length (drop (i * nat C) (pack u x)))
                 = min S ((i + 1) * nat C) - i * nat C"
      by (auto simp: S min_def)
    finally show ?thesis .
  qed
  have last: "es \<noteq> [] \<and> int (length (data (last es))) = int S - C * (int (length es) - 1)" if "0 < S"
  proof -
    have "0 < n"
    proof (rule ccontr)
      assume "\<not> 0 < n"
      with n0 have "n = 0" by simp
      with n_lo that show False by simp
    qed
    then have ne: "es \<noteq> []" using len by auto
    obtain k where k: "length es = Suc k"
      using ne by (cases es) auto
    have lastk: "last es = mk (int k)"
      using ne k nth [of k] by (simp add: last_conv_nth)
    have nk: "n = int k + 1" using len k by simp
    have c1: "int ((k + 1) * nat C) = n * C" using pos nk by (simp add: algebra_simps)
    have c2: "int (k * nat C) = (n - 1) * C" using pos nk by (simp add: algebra_simps)
    have "S \<le> (k + 1) * nat C" using n_lo c1 by linarith
    then have m: "min S ((k + 1) * nat C) = S" by simp
    have "(n - 1) * C < int S" using n_up by (simp add: algebra_simps)
    then have lt: "k * nat C < S" using c2 by linarith
    have "length (data (last es)) = S - k * nat C"
      unfolding lastk slice [of k] m using lt by (simp add: S)
    then have "int (length (data (last es))) = int S - int (k * nat C)"
      using lt by simp
    also have "\<dots> = int S - C * (int (length es) - 1)"
      unfolding c2 len by (simp add: algebra_simps)
    finally show ?thesis using ne by simp
  qed
  have "\<forall>i < length es.
          meta (es ! i) = (make_dataMeta u rid x)\<lparr>dm_totalParts := int (length es)\<rparr>
          \<and> index (es ! i) = int i
          \<and> data (es ! i) = take (min S ((i + 1) * nat C) - i * nat C) (drop (i * nat C) (pack u x))"
  proof (intro allI impI)
    fix i assume i: "i < length es"
    show "meta (es ! i) = (make_dataMeta u rid x)\<lparr>dm_totalParts := int (length es)\<rparr>
          \<and> index (es ! i) = int i
          \<and> data (es ! i) = take (min S ((i + 1) * nat C) - i * nat C) (drop (i * nat C) (pack u x))"
      unfolding nth [OF i] slice [symmetric] len by (simp add: mk_def)
  qed
  with chunks len last show ?thesis
    unfolding n_def by blast
qed

lemma fold_enqueue:
  "fold (\<lambda>e. enqueue (packMeta u e)) es st
     = st\<lparr>sendBuffer := sendBuffer st @ map (packMeta u) es,
          sendInterval := (sendInterval st \<or> es \<noteq> [])\<rparr>"
proof (induction es arbitrary: st)
  case Nil
  show ?case by simp
next
  case (Cons e es)
  show ?case
    by (simp add: Cons.IH) (simp add: enqueue_def startSendLoop_def)
qed

text \<open>
  C3. Every \<^verbatim>\<open>send\<close> of a value on an open connection in a binary mode, with a packed
  payload of \<open>S\<close> bytes and an effective capacity \<open>C = maxChunkSize - sizeof(dataMeta)\<close>
  that is positive, returns without an event after appending to the send buffer, in
  index order, the packed envelopes of \<open>\<lceil>S / C\<rceil>\<close> chunks, and arms the send loop if
  there is at least one. The envelope at position \<open>i\<close> has index \<open>i\<close>, carries the
  metadata with \<^verbatim>\<open>totalParts\<close> set to the number of chunks, and its data is the slice
  \<open>[i * C, min S ((i + 1) * C))\<close> of the payload; when the payload is not empty the last
  envelope carries \<open>S - C * (totalParts - 1)\<close> bytes.
\<close>

theorem chunker_slices:
  assumes "is_open st" and "ser st = Binary \<or> ser st = BinaryUtf8"
    and "C = maxChunkSize u - sizeof u (make_dataMeta u rid x)"
    and "S = length (pack u x)"
    and "0 < C"
  shows "\<exists>es. send u rid st (Val x)
                = Returns (st\<lparr>sendBuffer := sendBuffer st @ map (packMeta u) es,
                               sendInterval := (sendInterval st \<or> es \<noteq> [])\<rparr>, [])
     \<and> chunks u rid x = Some es
     \<and> int (length es) = \<lceil>real S / real_of_int C\<rceil>
     \<and> (\<forall>i < length es.
          meta (es ! i) = (make_dataMeta u rid x)\<lparr>dm_totalParts := int (length es)\<rparr>
          \<and> index (es ! i) = int i
          \<and> data (es ! i) = take (min S ((i + 1) * nat C) - i * nat C) (drop (i * nat C) (pack u x)))
     \<and> (0 < S \<longrightarrow> es \<noteq> [] \<and> int (length (data (last es))) = int S - C * (int (length es) - 1))"
proof -
  from chunks_slices [OF assms(3,4,5)] obtain es where
    es: "chunks u rid x = Some es"
    and props: "int (length es) = \<lceil>real S / real_of_int C\<rceil>"
      "\<forall>i < length es.
          meta (es ! i) = (make_dataMeta u rid x)\<lparr>dm_totalParts := int (length es)\<rparr>
          \<and> index (es ! i) = int i
          \<and> data (es ! i) = take (min S ((i + 1) * nat C) - i * nat C) (drop (i * nat C) (pack u x))"
      "0 < S \<longrightarrow> es \<noteq> [] \<and> int (length (data (last es))) = int S - C * (int (length es) - 1)"
    by blast
  have "send u rid st (Val x)
          = Returns (fold (\<lambda>e. enqueue (packMeta u e)) es st, [])"
    using assms(1,2) es by (auto simp: send_def)
  then have "send u rid st (Val x)
                = Returns (st\<lparr>sendBuffer := sendBuffer st @ map (packMeta u) es,
                               sendInterval := (sendInterval st \<or> es \<noteq> [])\<rparr>, [])"
    by (simp only: fold_enqueue)
  with es props show ?thesis by blast
qed

theorem chunker_slices_witness:
  "is_open (opened Binary)
   \<and> (950::int) = maxChunkSize sample_util
                    - sizeof sample_util (make_dataMeta sample_util ''t1'' payload2200)
   \<and> (2200::nat) = length (pack sample_util payload2200)
   \<and> (\<exists>es. send sample_util ''t1'' (opened Binary) (Val payload2200)
               = Returns ((opened Binary)\<lparr>sendBuffer := map (\<lambda>e. Val (Packed e)) es,
                                            sendInterval := True\<rparr>, [])
         \<and> length es = 3
         \<and> map index es = [0, 1, 2]
         \<and> map (\<lambda>e. dm_totalParts (meta e)) es = [3, 3, 3]
         \<and> map (\<lambda>e. length (data e)) es = [950, 950, 300])"
proof -
  have h1: "is_open (opened Binary)"
    by (simp add: opened_def dc_onopen_def)
  have h2: "ser (opened Binary) = Binary \<or> ser (opened Binary) = BinaryUtf8"
    by (simp add: opened_def dc_onopen_def fresh_def)
  have h3: "(950::int) = maxChunkSize sample_util
              - sizeof sample_util (make_dataMeta sample_util ''t1'' payload2200)"
    by (simp add: sample_util_def)
  have h4: "(2200::nat) = length (pack sample_util payload2200)"
    by (simp add: sample_util_def payload2200_def)
  have h5: "(0::int) < 950" by simp
  from chunker_slices [OF h1 h2 h3 h4 h5] obtain es where
    snd: "send sample_util ''t1'' (opened Binary) (Val payload2200)
            = Returns ((opened Binary)\<lparr>sendBuffer := sendBuffer (opened Binary)
                                            @ map (packMeta sample_util) es,
                          sendInterval := (sendInterval (opened Binary) \<or> es \<noteq> [])\<rparr>, [])"
    and len: "int (length es) = \<lceil>real 2200 / real_of_int 950\<rceil>"
    and nth: "\<forall>i < length es.
        meta (es ! i) = (make_dataMeta sample_util ''t1'' payload2200)
                          \<lparr>dm_totalParts := int (length es)\<rparr>
        \<and> index (es ! i) = int i
        \<and> data (es ! i) = take (min 2200 ((i + 1) * nat 950) - i * nat 950)
                            (drop (i * nat 950) (pack sample_util payload2200))"
    by blast
  have l3: "length es = 3" using len by simp
  then obtain a b c where abc: "es = [a, b, c]"
    by (auto simp: length_Suc_conv eval_nat_numeral)
  have parts: "index a = 0 \<and> index b = 1 \<and> index c = 2
        \<and> dm_totalParts (meta a) = 3 \<and> dm_totalParts (meta b) = 3 \<and> dm_totalParts (meta c) = 3
        \<and> length (data a) = 950 \<and> length (data b) = 950 \<and> length (data c) = 300"
    using nth [rule_format, of 0] nth [rule_format, of 1] nth [rule_format, of 2] h4
    by (simp add: abc)
  have buf: "sendBuffer (opened Binary) = []" "\<not> sendInterval (opened Binary)"
    by (simp_all add: opened_def dc_onopen_def fresh_def)
  have pm: "packMeta sample_util = (\<lambda>e. Val (Packed e))"
    by (simp add: sample_util_def)
  have "send sample_util ''t1'' (opened Binary) (Val payload2200)
          = Returns ((opened Binary)\<lparr>sendBuffer := map (\<lambda>e. Val (Packed e)) es,
                                       sendInterval := True\<rparr>, [])"
    using snd by (simp add: buf pm abc)
  with h1 h3 h4 l3 parts show ?thesis
    by (intro conjI exI [of _ es]) (simp_all add: abc)
qed

section \<open>A metadata footprint that leaves no room\<close>

lemma slice_loop_nonpositive: "n \<le> 0 \<Longrightarrow> slice_loop p c dm n 0 = []"
  by (simp add: slice_loop_upto)

text \<open>
  C4, as stated, fails: there is no check of the chunk size. With a channel bound of 40
  and a metadata footprint of 50 the chunk size is -10, and \<^verbatim>\<open>send\<close> returns normally,
  with no error and nothing enqueued.
\<close>

theorem nonpositive_chunk_size_counterexample:
  "maxChunkSize (sample_util\<lparr>maxChunkSize := 40\<rparr>)
     - sizeof (sample_util\<lparr>maxChunkSize := 40\<rparr>)
         (make_dataMeta (sample_util\<lparr>maxChunkSize := 40\<rparr>) ''t1'' (Buf [1, 2, 3])) = - 10
   \<and> send (sample_util\<lparr>maxChunkSize := 40\<rparr>) ''t1'' (opened Binary) (Val (Buf [1, 2, 3]))
       = Returns (opened Binary, [])"
  by (simp add: send_def chunks_def js_ceil_div_def slice_loop_nonpositive sample_util_def
      opened_def dc_onopen_def fresh_def Let_def)

text \<open>
  C4, amended. In a binary mode on an open connection, when the effective chunk size is
  negative, \<^verbatim>\<open>send\<close> does not fail: the number of slices is not positive, the loop body
  never runs, and the call returns with the connection unchanged, no chunk enqueued and
  no event emitted.
\<close>

theorem negative_chunk_size_sends_nothing:
  assumes "is_open st" and "ser st = Binary \<or> ser st = BinaryUtf8"
    and "maxChunkSize u - sizeof u (make_dataMeta u rid x) < 0"
  shows "send u rid st (Val x) = Returns (st, [])"
proof -
  let ?C = "maxChunkSize u - sizeof u (make_dataMeta u rid x)"
  have "0 \<le> (- int (length (pack u x))) div ?C"
    using assms(3) by (simp add: neg_imp_zdiv_nonneg_iff)
  then have "chunks u rid x = Some []"
    using assms(3) by (simp add: chunks_def js_ceil_div_def Let_def slice_loop_nonpositive)
  with assms(1,2) show ?thesis
    by (auto simp: send_def)
qed

theorem negative_chunk_size_sends_nothing_witness:
  "is_open (opened BinaryUtf8) \<and> (ser (opened BinaryUtf8) = Binary \<or> ser (opened BinaryUtf8) = BinaryUtf8)
   \<and> maxChunkSize (sample_util\<lparr>maxChunkSize := 40\<rparr>)
       - sizeof (sample_util\<lparr>maxChunkSize := 40\<rparr>)
           (make_dataMeta (sample_util\<lparr>maxChunkSize := 40\<rparr>) ''t1'' (Buf [1, 2, 3])) < 0
   \<and> send (sample_util\<lparr>maxChunkSize := 40\<rparr>) ''t1'' (opened BinaryUtf8) (Val (Buf [1, 2, 3]))
       = Returns (opened BinaryUtf8, [])"
proof -
  have h1: "is_open (opened BinaryUtf8)"
    by (simp add: opened_def dc_onopen_def)
  have h2: "ser (opened BinaryUtf8) = Binary \<or> ser (opened BinaryUtf8) = BinaryUtf8"
    by (simp add: opened_def dc_onopen_def fresh_def)
  have h3: "maxChunkSize (sample_util\<lparr>maxChunkSize := 40\<rparr>)
       - sizeof (sample_util\<lparr>maxChunkSize := 40\<rparr>)
           (make_dataMeta (sample_util\<lparr>maxChunkSize := 40\<rparr>) ''t1'' (Buf [1, 2, 3])) < 0"
    by (simp add: sample_util_def)
  from negative_chunk_size_sends_nothing [OF h1 h2 h3] h1 h2 h3 show ?thesis
    by simp
qed

text \<open>
  With a chunk size of exactly zero the quotient is \<^verbatim>\<open>Infinity\<close> for a payload that is
  not empty, and the slicing loop never ends.
\<close>

lemma zero_chunk_size:
  assumes "is_open st" and "ser st = Binary \<or> ser st = BinaryUtf8"
    and "maxChunkSize u - sizeof u (make_dataMeta u rid x) = 0"
  shows "send u rid st (Val x) = (if pack u x = [] then Returns (st, []) else Diverges)"
  using assms by (auto simp: send_def chunks_def js_ceil_div_def Let_def)

section \<open>Chunk indices outside the announced range\<close>

lemma array_set_past_end:
  "int (length a) \<le> i \<Longrightarrow> i < 2 ^ 32 - 1 \<Longrightarrow>
   array_set a i v = a @ replicate (nat i - length a) None @ [Some v]"
  by (auto simp: array_set_def)

lemma array_set_negative: "i < 0 \<Longrightarrow> array_set a i v = a"
  by (simp add: array_set_def)

text \<open>
  C6, as stated, fails: the handler never looks at the index. An envelope of a two-part
  transfer with index 5 is accepted without any event: the transfer is created, counted
  as having one part, and the slice is written at position 5 of an array that the write
  itself stretches to six slots.
\<close>

theorem out_of_range_index_counterexample:
  "handleChunk sample_util (opened Binary) (sample_chunk 2 5)
     = Returns ((opened Binary)\<lparr>receivedData :=
          [''t1'' \<mapsto> \<lparr>cd_size = 2, cd_type = ''ArrayBuffer'', cd_name = None, cd_mimeType = None,
                      cd_totalParts = 2,
                      parts = [None, None, None, None, None, Some [6]],
                      receivedParts = 1\<rparr>]\<rparr>, [])"
  by (simp add: handleChunk_def lookup_or_init_def receivedData_get_def
      Object_prototype_members_def new_Array_def array_set_def sample_chunk_def
      opened_def dc_onopen_def fresh_def eval_nat_numeral)

text \<open>
  C6, amended. An envelope whose index is negative or at least \<^verbatim>\<open>totalParts\<close> is not
  rejected. Let the envelope address a transfer that is live, or one that its arrival
  creates (its id names no inherited member and its \<^verbatim>\<open>totalParts\<close> is a valid array
  length). Unless the envelope brings the count of received parts to \<^verbatim>\<open>totalParts\<close>, the
  handler returns without an event, so without any \<^verbatim>\<open>error\<close> event, and the transfer
  stays in the table with its count incremented and the data stored by a plain array
  write: a negative index changes no slot, an index past the end stretches the array.
  What happens when the count reaches \<^verbatim>\<open>totalParts\<close> is left open.
\<close>

theorem out_of_range_index_accepted:
  assumes "lookup_or_init (receivedData st) e = Inr cd"
    and "index e < 0 \<or> cd_totalParts cd \<le> index e"
    and "receivedParts cd + 1 \<noteq> cd_totalParts cd"
  shows "handleChunk u st e
           = Returns (st\<lparr>receivedData := (receivedData st)(dm_id (meta e) \<mapsto>
                          cd\<lparr>receivedParts := receivedParts cd + 1,
                             parts := array_set (parts cd) (index e) (data e)\<rparr>)\<rparr>, [])
         \<and> (index e < 0 \<longrightarrow> array_set (parts cd) (index e) (data e) = parts cd)
         \<and> (int (length (parts cd)) \<le> index e \<and> index e < 2 ^ 32 - 1 \<longrightarrow>
              array_set (parts cd) (index e) (data e)
                = parts cd @ replicate (nat (index e) - length (parts cd)) None @ [Some (data e)])"
  using assms(1,3)
  by (simp add: handleChunk_def Let_def array_set_negative array_set_past_end)

theorem out_of_range_index_accepted_witness:
  "lookup_or_init (receivedData (opened Binary)) (sample_chunk 2 (-1))
     = Inr \<lparr>cd_size = 2, cd_type = ''ArrayBuffer'', cd_name = None, cd_mimeType = None,
            cd_totalParts = 2, parts = [None, None], receivedParts = 0\<rparr>
   \<and> handleChunk sample_util (opened Binary) (sample_chunk 2 (-1))
       = Returns ((opened Binary)\<lparr>receivedData :=
            [''t1'' \<mapsto> \<lparr>cd_size = 2, cd_type = ''ArrayBuffer'', cd_name = None,
                        cd_mimeType = None, cd_totalParts = 2, parts = [None, None],
                        receivedParts = 1\<rparr>]\<rparr>, [])
   \<and> handleChunk sample_util (opened Binary) (sample_chunk 2 5)
       = Returns ((opened Binary)\<lparr>receivedData :=
            [''t1'' \<mapsto> \<lparr>cd_size = 2, cd_type = ''ArrayBuffer'', cd_name = None,
                        cd_mimeType = None, cd_totalParts = 2,
                        parts = [None, None, None, None, None, Some [6]],
                        receivedParts = 1\<rparr>]\<rparr>, [])"
proof -
  let ?cd = "\<lparr>cd_size = 2, cd_type = ''ArrayBuffer'', cd_name = None, cd_mimeType = None,
            cd_totalParts = 2, parts = [None, None], receivedParts = 0\<rparr>"
  have h1: "lookup_or_init (receivedData (opened Binary)) (sample_chunk 2 i) = Inr ?cd" for i
    by (simp add: lookup_or_init_def receivedData_get_def Object_prototype_members_def
        new_Array_def sample_chunk_def opened_def dc_onopen_def fresh_def eval_nat_numeral)
  have h2: "index (sample_chunk 2 (-1)) < 0 \<or> cd_totalParts ?cd \<le> index (sample_chunk 2 (-1))"
    by (simp add: sample_chunk_def)
  have h2': "index (sample_chunk 2 5) < 0 \<or> cd_totalParts ?cd \<le> index (sample_chunk 2 5)"
    by (simp add: sample_chunk_def)
  have h3: "receivedParts ?cd + 1 \<noteq> cd_totalParts ?cd"
    by simp
  have tbl: "receivedData (opened Binary) = Map.empty"
    by (simp add: opened_def dc_onopen_def fresh_def)
  have neg: "handleChunk sample_util (opened Binary) (sample_chunk 2 (-1))
       = Returns ((opened Binary)\<lparr>receivedData :=
            [''t1'' \<mapsto> \<lparr>cd_size = 2, cd_type = ''ArrayBuffer'', cd_name = None,
                        cd_mimeType = None, cd_totalParts = 2, parts = [None, None],
                        receivedParts = 1\<rparr>]\<rparr>, [])"
    using out_of_range_index_accepted [OF h1 h2 h3, of sample_util]
    by (simp add: sample_chunk_def tbl)
  have past: "handleChunk sample_util (opened Binary) (sample_chunk 2 5)
       = Returns ((opened Binary)\<lparr>receivedData :=
            [''t1'' \<mapsto> \<lparr>cd_size = 2, cd_type = ''ArrayBuffer'', cd_name = None,
                        cd_mimeType = None, cd_totalParts = 2,
                        parts = [None, None, None, None, None, Some [6]],
                        receivedParts = 1\<rparr>]\<rparr>, [])"
    using out_of_range_index_accepted [OF h1 h2' h3, of sample_util]
    by (simp add: sample_chunk_def tbl eval_nat_numeral)
  from h1 [of "-1"] neg past show ?thesis
    by simp
qed

section \<open>Reassembly in any order of arrival\<close>












end
